theory Spec2Isabelle
  imports Complex_Main
begin

section \<open>Text\<close>

text \<open>
  Python strings are modelled as \<open>string\<close> (lists of characters), read as ASCII text.
  \<open>lower\<close> is \<open>str.lower()\<close>: the letters \<open>A\<close> to \<open>Z\<close> are mapped to \<open>a\<close> to \<open>z\<close> and
  every other character is kept.
\<close>

definition lower_char :: "char \<Rightarrow> char" where
  "lower_char c =
     (case map_of (zip ''ABCDEFGHIJKLMNOPQRSTUVWXYZ'' ''abcdefghijklmnopqrstuvwxyz'') c of
        None \<Rightarrow> c
      | Some d \<Rightarrow> d)"

definition lower :: "string \<Rightarrow> string" where
  "lower s = map lower_char s"

text \<open>
  \<open>isspace\<close> is the whitespace of \<open>str.strip()\<close> and of the pattern \<open>\s\<close> on ASCII text:
  tab, line feed, vertical tab, form feed, carriage return, the four separators
  \<open>0x1c\<close> to \<open>0x1f\<close>, and the space.
\<close>

definition isspace :: "char \<Rightarrow> bool" where
  "isspace c = (let n = (of_char c :: nat) in (9 \<le> n \<and> n \<le> 13) \<or> (28 \<le> n \<and> n \<le> 32))"

definition isdigit :: "char \<Rightarrow> bool" where
  "isdigit c = (c \<in> set ''0123456789'')"

definition strip :: "string \<Rightarrow> string" where
  "strip s = rev (dropWhile isspace (rev (dropWhile isspace s)))"

text \<open>\<open>startswith p s\<close> is \<open>s.startswith(p)\<close>; \<open>py_in sub s\<close> is \<open>sub in s\<close> on strings.\<close>

fun startswith :: "string \<Rightarrow> string \<Rightarrow> bool" where
  "startswith [] s = True"
| "startswith (p # ps) [] = False"
| "startswith (p # ps) (c # cs) = (p = c \<and> startswith ps cs)"

fun py_in :: "string \<Rightarrow> string \<Rightarrow> bool" where
  "py_in sub [] = (sub = [])"
| "py_in sub (c # cs) = (startswith sub (c # cs) \<or> py_in sub cs)"

section \<open>Decimals\<close>

text \<open>
  A \<open>Decimal\<close> is a finite decimal number, an infinity, a quiet NaN or a signalling NaN.
  Finite decimals are modelled as exact rationals: the arithmetic of the program (sums,
  one subtraction, one quotient) is taken as exact, which it is as long as its results fit
  the 28 significant digits of the default decimal context. Conversions to \<open>float\<close> are
  likewise taken as exact.

  Under the default context an ordering comparison with a NaN, any arithmetic on a
  signalling NaN, an equality test on a signalling NaN and the difference of two equal
  infinities raise \<open>InvalidOperation\<close>.
\<close>

datatype dec = Fin rat | PosInf | NegInf | NaN | SNaN

datatype numeric_field = AwardedPointsField nat | TotalScoreField | MaxPossibleField

datatype scoring_failure =
    NoJsonObject
  | UnclosedJsonObject
  | InvalidJson
  | MissingField string
  | NotAList
  | NotAnObject nat
  | MissingCriterionName nat
  | UnknownCriterion string
  | DuplicateCriterion string
  | InvalidNumeric numeric_field
  | NegativePoints string dec
  | PointsExceedMax string dec rat
  | MissingJustification string
  | MissingCriteria "string set"
  | MaxPossibleMismatch dec rat

datatype validation_issue =
    FieldInvalid string
  | DuplicateCriterionNames "string set"
  | AwardedExceedsMax rat rat

datatype parse_failure =
    EmptyContent
  | NoValidCriteria
  | PointsNotPositive rat
  | InvalidPoints string

text \<open>
  The issues that the rubric validator reports. An issue about a criterion carries the
  criterion's position and name; the issue about vague words carries the words found
  (a set: the program lists them in the iteration order of a \<open>frozenset\<close>).
\<close>

datatype issue =
    TitleEmpty
  | NoCriteria
  | NameTooShort nat string
  | DescriptionTooShort nat string
  | VagueDescription nat string "string set"
  | PointsExceedMaximum nat string rat
  | DuplicateName string nat nat
  | TotalNotPositive
  | TotalUnusuallyHigh rat

text \<open>
  The exceptions of the program. \<open>ValidationError\<close> is the failure of a model constructor
  (with the offending fields, or the message of the model's own validator),
  \<open>ScoringError\<close> the result parser's failure, \<open>RubricParseError\<close> the rubric parser's
  (with its line number when it has one), \<open>RubricValidationError\<close> the validator's, \<open>LLMError\<close> the oracle's, \<open>InvalidOperation\<close>
  the decimal module's signal, \<open>StatisticsError\<close> the median of no data and
  \<open>ValueError\<close> the minimum of no data.
\<close>

datatype error =
    ValidationError "validation_issue list"
  | ScoringError scoring_failure
  | RubricParseError parse_failure "nat option"
  | RubricValidationError "issue list"
  | LLMError string
  | InvalidOperation
  | StatisticsError
  | ValueError

definition is_nan :: "dec \<Rightarrow> bool" where
  "is_nan d = (d = NaN \<or> d = SNaN)"

text \<open>The order of the numbers: the finite decimals between the two infinities.\<close>

fun dec_less :: "dec \<Rightarrow> dec \<Rightarrow> bool" where
  "dec_less (Fin a) (Fin b) = (a < b)"
| "dec_less (Fin a) PosInf = True"
| "dec_less NegInf (Fin b) = True"
| "dec_less NegInf PosInf = True"
| "dec_less a b = False"

text \<open>\<open>dec_lt a b\<close> is \<open>a < b\<close>, \<open>dec_gt a b\<close> is \<open>a > b\<close> and \<open>dec_ne a b\<close> is \<open>a != b\<close>.\<close>

definition dec_lt :: "dec \<Rightarrow> dec \<Rightarrow> error + bool" where
  "dec_lt a b = (if is_nan a \<or> is_nan b then Inl InvalidOperation else Inr (dec_less a b))"

definition dec_gt :: "dec \<Rightarrow> dec \<Rightarrow> error + bool" where
  "dec_gt a b = dec_lt b a"

definition dec_ne :: "dec \<Rightarrow> dec \<Rightarrow> error + bool" where
  "dec_ne a b =
     (if a = SNaN \<or> b = SNaN then Inl InvalidOperation
      else if a = NaN \<or> b = NaN then Inr True
      else Inr (a \<noteq> b))"

fun dec_sub :: "dec \<Rightarrow> dec \<Rightarrow> error + dec" where
  "dec_sub SNaN b = Inl InvalidOperation"
| "dec_sub a SNaN = Inl InvalidOperation"
| "dec_sub NaN b = Inr NaN"
| "dec_sub a NaN = Inr NaN"
| "dec_sub (Fin a) (Fin b) = Inr (Fin (a - b))"
| "dec_sub (Fin a) PosInf = Inr NegInf"
| "dec_sub (Fin a) NegInf = Inr PosInf"
| "dec_sub PosInf PosInf = Inl InvalidOperation"
| "dec_sub NegInf NegInf = Inl InvalidOperation"
| "dec_sub PosInf b = Inr PosInf"
| "dec_sub NegInf b = Inr NegInf"

fun dec_abs :: "dec \<Rightarrow> error + dec" where
  "dec_abs SNaN = Inl InvalidOperation"
| "dec_abs NaN = Inr NaN"
| "dec_abs (Fin a) = Inr (Fin \<bar>a\<bar>)"
| "dec_abs PosInf = Inr PosInf"
| "dec_abs NegInf = Inr PosInf"

section \<open>Models (src/models.py)\<close>

text \<open>
  The pydantic models are records; a constructor returns the record or the
  \<open>ValidationError\<close> that lists every field that failed. A \<open>Decimal\<close> field accepts finite
  decimals only, so the records hold rationals. A model's own validator
  (\<open>model_validator(mode="after")\<close>) runs once the fields are valid. The identifiers and
  timestamps that the models draw afresh (\<open>submission_id\<close>, \<open>graded_at\<close>) are left out.
\<close>

record RubricCriterion =
  name :: string
  description :: string
  max_points :: rat
  allows_partial_credit :: bool

definition RubricCriterion_new :: "string \<Rightarrow> string \<Rightarrow> dec \<Rightarrow> bool \<Rightarrow> error + RubricCriterion" where
  "RubricCriterion_new n d mp apc =
     (let issues =
            (if 1 \<le> length n \<and> length n \<le> 200 then [] else [FieldInvalid ''name''])
          @ (if 1 \<le> length d then [] else [FieldInvalid ''description''])
          @ (case mp of
               Fin p \<Rightarrow> if 0 < p \<and> p \<le> 1000 then [] else [FieldInvalid ''max_points'']
             | _ \<Rightarrow> [FieldInvalid ''max_points''])
      in case mp of
           Fin p \<Rightarrow>
             if issues = []
             then Inr \<lparr>name = n, description = d, max_points = p, allows_partial_credit = apc\<rparr>
             else Inl (ValidationError issues)
         | _ \<Rightarrow> Inl (ValidationError issues))"

record Rubric =
  title :: string
  description :: string
  criteria :: "RubricCriterion list"

definition total_max_points :: "Rubric \<Rightarrow> rat" where
  "total_max_points r = sum_list (map RubricCriterion.max_points (criteria r))"

definition criterion_count :: "Rubric \<Rightarrow> nat" where
  "criterion_count r = length (criteria r)"

text \<open>
  \<open>validate_no_duplicate_names\<close> compares the number of names with the number of
  elements of the set of names; the names are compared as they are written.
\<close>

definition validate_no_duplicate_names :: "Rubric \<Rightarrow> error + Rubric" where
  "validate_no_duplicate_names r =
     (let names = map name (criteria r)
      in if length names \<noteq> card (set names)
         then Inl (ValidationError
                [DuplicateCriterionNames (set (filter (\<lambda>n. count_list names n > 1) names))])
         else Inr r)"

definition Rubric_new :: "string \<Rightarrow> string \<Rightarrow> RubricCriterion list \<Rightarrow> error + Rubric" where
  "Rubric_new t d cs =
     (let issues =
            (if 1 \<le> length t \<and> length t \<le> 500 then [] else [FieldInvalid ''title''])
          @ (if 1 \<le> length cs then [] else [FieldInvalid ''criteria''])
      in if issues = []
         then validate_no_duplicate_names \<lparr>title = t, description = d, criteria = cs\<rparr>
         else Inl (ValidationError issues))"

record CriterionResult =
  criterion_name :: string
  max_points :: rat
  awarded_points :: rat
  justification :: string
  deduction_reason :: "string option"

definition validate_points_range :: "CriterionResult \<Rightarrow> error + CriterionResult" where
  "validate_points_range r =
     (if awarded_points r > CriterionResult.max_points r
      then Inl (ValidationError
             [AwardedExceedsMax (awarded_points r) (CriterionResult.max_points r)])
      else Inr r)"

definition CriterionResult_new ::
  "string \<Rightarrow> dec \<Rightarrow> dec \<Rightarrow> string \<Rightarrow> string option \<Rightarrow> error + CriterionResult" where
  "CriterionResult_new cn mp ap j dr =
     (let issues =
            (case mp of Fin m \<Rightarrow> [] | _ \<Rightarrow> [FieldInvalid ''max_points''])
          @ (case ap of
               Fin a \<Rightarrow> if 0 \<le> a then [] else [FieldInvalid ''awarded_points'']
             | _ \<Rightarrow> [FieldInvalid ''awarded_points''])
          @ (if 1 \<le> length j then [] else [FieldInvalid ''justification''])
      in case (mp, ap) of
           (Fin m, Fin a) \<Rightarrow>
             if issues = []
             then validate_points_range
                    \<lparr>criterion_name = cn, max_points = m, awarded_points = a,
                     justification = j, deduction_reason = dr\<rparr>
             else Inl (ValidationError issues)
         | _ \<Rightarrow> Inl (ValidationError issues))"

definition percentage :: "CriterionResult \<Rightarrow> rat" where
  "percentage r =
     (if CriterionResult.max_points r = 0 then 0
      else awarded_points r / CriterionResult.max_points r * 100)"

record GradingResult =
  rubric_title :: string
  criteria_results :: "CriterionResult list"
  overall_feedback :: string
  llm_passes_used :: int
  variance_detected :: bool
  flagged_for_review :: bool

definition GradingResult_new ::
  "string \<Rightarrow> CriterionResult list \<Rightarrow> string \<Rightarrow> int \<Rightarrow> bool \<Rightarrow> bool \<Rightarrow> error + GradingResult" where
  "GradingResult_new rt crs fb passes vd flagged =
     (let issues =
            (if 1 \<le> length crs then [] else [FieldInvalid ''criteria_results''])
          @ (if 1 \<le> length fb then [] else [FieldInvalid ''overall_feedback''])
          @ (if 1 \<le> passes then [] else [FieldInvalid ''llm_passes_used''])
      in if issues = []
         then Inr \<lparr>rubric_title = rt, criteria_results = crs, overall_feedback = fb,
                  llm_passes_used = passes, variance_detected = vd,
                  flagged_for_review = flagged\<rparr>
         else Inl (ValidationError issues))"

definition total_awarded :: "GradingResult \<Rightarrow> rat" where
  "total_awarded g = sum_list (map awarded_points (criteria_results g))"

definition total_max :: "GradingResult \<Rightarrow> rat" where
  "total_max g = sum_list (map CriterionResult.max_points (criteria_results g))"

definition percentage_score :: "GradingResult \<Rightarrow> rat" where
  "percentage_score g =
     (if total_max g = 0 then 0 else total_awarded g / total_max g * 100)"

text \<open>
  A \<open>CriterionResult\<close> value exists only as the outcome of its constructor:
  \<open>constructed r\<close> says that \<open>r\<close> is what the constructor returns on \<open>r\<close>'s own fields.
\<close>

definition constructed :: "CriterionResult \<Rightarrow> bool" where
  "constructed r =
     (CriterionResult_new (criterion_name r) (Fin (CriterionResult.max_points r))
        (Fin (awarded_points r)) (justification r) (deduction_reason r) = Inr r)"

section \<open>Grading engine (src/grading/engine.py)\<close>






















section \<open>Rubric validator (src/rubric/validator.py)\<close>

definition MIN_DESCRIPTION_LENGTH :: nat where
  "MIN_DESCRIPTION_LENGTH = 10"

definition MAX_POINTS_PER_CRITERION :: rat where
  "MAX_POINTS_PER_CRITERION = 1000"

definition VAGUE_WORDS :: "string list" where
  "VAGUE_WORDS =
     [''good'', ''bad'', ''nice'', ''okay'', ''fine'', ''appropriate'', ''adequate'',
      ''sufficient'', ''reasonable'']"

definition validate_structure :: "Rubric \<Rightarrow> issue list" where
  "validate_structure rubric =
     (if strip (title rubric) = [] then [TitleEmpty] else [])
   @ (if criteria rubric = [] then [NoCriteria] else [])"

text \<open>
  \<open>vague_found\<close> is the list \<open>[w for w in VAGUE_WORDS if w in description_lower]\<close>: a
  word of the vocabulary is found when it occurs anywhere in the lower-cased description.
\<close>

definition vague_found :: "RubricCriterion \<Rightarrow> string list" where
  "vague_found criterion =
     (let description_lower = lower (RubricCriterion.description criterion)
      in filter (\<lambda>w. py_in w description_lower) VAGUE_WORDS)"

definition validate_criterion :: "RubricCriterion \<Rightarrow> nat \<Rightarrow> issue list" where
  "validate_criterion criterion index =
     (if length (strip (name criterion)) < 2
      then [NameTooShort index (name criterion)] else [])
   @ (if length (strip (RubricCriterion.description criterion)) < MIN_DESCRIPTION_LENGTH
      then [DescriptionTooShort index (name criterion)] else [])
   @ (if vague_found criterion \<noteq> []
      then [VagueDescription index (name criterion) (set (vague_found criterion))] else [])
   @ (if RubricCriterion.max_points criterion > MAX_POINTS_PER_CRITERION
      then [PointsExceedMaximum index (name criterion) (RubricCriterion.max_points criterion)]
      else [])"

fun check_duplicates_loop ::
  "RubricCriterion list \<Rightarrow> nat \<Rightarrow> (string \<rightharpoonup> nat) \<Rightarrow> issue list" where
  "check_duplicates_loop [] i seen_names = []"
| "check_duplicates_loop (criterion # rest) i seen_names =
     (let name_lower = strip (lower (name criterion))
      in case seen_names name_lower of
           Some first \<Rightarrow>
             DuplicateName (name criterion) first i
               # check_duplicates_loop rest (i + 1) seen_names
         | None \<Rightarrow> check_duplicates_loop rest (i + 1) (seen_names(name_lower \<mapsto> i)))"

definition check_duplicates :: "RubricCriterion list \<Rightarrow> issue list" where
  "check_duplicates cs = check_duplicates_loop cs 1 Map.empty"

definition validate_total_points :: "Rubric \<Rightarrow> issue list" where
  "validate_total_points rubric =
     (if total_max_points rubric \<le> 0 then [TotalNotPositive] else [])
   @ (if total_max_points rubric > 1000 then [TotalUnusuallyHigh (total_max_points rubric)]
      else [])"

definition validate :: "Rubric \<Rightarrow> bool \<times> issue list" where
  "validate rubric =
     (let issues =
            validate_structure rubric
          @ concat (map (\<lambda>(i, criterion). validate_criterion criterion i)
                      (zip [1 ..< Suc (length (criteria rubric))] (criteria rubric)))
          @ check_duplicates (criteria rubric)
          @ validate_total_points rubric
      in (issues = [], issues))"

definition validate_or_raise :: "Rubric \<Rightarrow> error + unit" where
  "validate_or_raise rubric =
     (case validate rubric of
        (is_valid, issues) \<Rightarrow> if \<not> is_valid then Inl (RubricValidationError issues) else Inr ())"

text \<open>
  The reading of ``an exact token'' that the properties below compare the validator
  with: the tokens of a text are its maximal runs of letters and digits.
\<close>

definition is_word_char :: "char \<Rightarrow> bool" where
  "is_word_char c =
     (c \<in> set ''abcdefghijklmnopqrstuvwxyzABCDEFGHIJKLMNOPQRSTUVWXYZ0123456789'')"

fun tokens_from :: "string \<Rightarrow> string \<Rightarrow> string list" where
  "tokens_from cur [] = (if cur = [] then [] else [cur])"
| "tokens_from cur (c # cs) =
     (if is_word_char c then tokens_from (cur @ [c]) cs
      else (if cur = [] then [] else [cur]) @ tokens_from [] cs)"

definition tokens :: "string \<Rightarrow> string list" where
  "tokens s = tokens_from [] s"

definition has_vague_token :: "RubricCriterion \<Rightarrow> bool" where
  "has_vague_token criterion =
     (\<exists>w \<in> set VAGUE_WORDS. w \<in> set (tokens (lower (RubricCriterion.description criterion))))"

text \<open>
  Example data: the criterion of the repository's test of vague descriptions, and a
  criterion whose description holds a word of the vocabulary inside a longer word only.
\<close>

definition vague_criterion :: RubricCriterion where
  "vague_criterion =
     \<lparr>name = ''Criterion A'',
      description = ''The answer should be good and appropriate for the question'',
      RubricCriterion.max_points = 10, allows_partial_credit = True\<rparr>"

definition defined_criterion :: RubricCriterion where
  "defined_criterion =
     \<lparr>name = ''Definitions'', description = ''All terms are defined precisely'',
      RubricCriterion.max_points = 10, allows_partial_credit = True\<rparr>"

section \<open>Result parser (src/grading/scorer.py)\<close>

text \<open>
  The values that \<open>json.loads\<close> returns. A number is represented by the decimal that
  \<open>Decimal(str(value))\<close> makes of it (Python's decoder also reads \<open>NaN\<close> and \<open>Infinity\<close>).
  A dictionary is a list of bindings in which the first binding of a key counts.
\<close>

datatype pyval =
    PNone
  | PBool bool
  | PNum dec
  | PStr string
  | PList "pyval list"
  | PDict "(string \<times> pyval) list"

text \<open>
  What the parser takes from the Python runtime and does not define itself:
  \<open>str_of\<close> is \<open>str(value)\<close> on a value that is not a string, \<open>decimal_of_string\<close> is
  \<open>Decimal(s)\<close> on a string (\<open>None\<close> when the string is no decimal literal), and
  \<open>json_payload\<close> is \<open>_extract_json\<close> followed by \<open>json.loads\<close>, on a completion whose JSON
  text denotes an object. The properties below hold for every such runtime.
\<close>

record runtime =
  str_of :: "pyval \<Rightarrow> string"
  decimal_of_string :: "string \<Rightarrow> dec option"
  json_payload :: "string \<Rightarrow> scoring_failure + (string \<times> pyval) list"

definition py_str :: "runtime \<Rightarrow> pyval \<Rightarrow> string" where
  "py_str rt v = (case v of PStr s \<Rightarrow> s | _ \<Rightarrow> str_of rt v)"

text \<open>
  \<open>to_decimal\<close> is \<open>Decimal(str(value))\<close>: the text of \<open>None\<close>, of a truth value, of a
  list and of a dictionary is no decimal literal.
\<close>

definition to_decimal :: "runtime \<Rightarrow> pyval \<Rightarrow> dec option" where
  "to_decimal rt v =
     (case v of PNum d \<Rightarrow> Some d | PStr s \<Rightarrow> decimal_of_string rt s | _ \<Rightarrow> None)"

definition parse_decimal :: "runtime \<Rightarrow> pyval \<Rightarrow> numeric_field \<Rightarrow> error + dec" where
  "parse_decimal rt v field_name =
     (case to_decimal rt v of
        None \<Rightarrow> Inl (ScoringError (InvalidNumeric field_name))
      | Some d \<Rightarrow> Inr d)"

definition dict_get :: "(string \<times> pyval) list \<Rightarrow> string \<Rightarrow> pyval \<Rightarrow> pyval" where
  "dict_get d k absent = (case map_of d k of None \<Rightarrow> absent | Some v \<Rightarrow> v)"

text \<open>
  \<open>rubric_lookup\<close> is the dictionary \<open>{c.name.lower(): c for c in rubric.criteria}\<close>, in
  the order of its keys: a key that comes again keeps its place and takes the later
  criterion.
\<close>

fun dict_set :: "'k \<Rightarrow> 'v \<Rightarrow> ('k \<times> 'v) list \<Rightarrow> ('k \<times> 'v) list" where
  "dict_set k v [] = [(k, v)]"
| "dict_set k v ((k', v') # rest) =
     (if k' = k then (k, v) # rest else (k', v') # dict_set k v rest)"

definition rubric_lookup :: "Rubric \<Rightarrow> (string \<times> RubricCriterion) list" where
  "rubric_lookup rubric = foldl (\<lambda>d c. dict_set (lower (name c)) c d) [] (criteria rubric)"

text \<open>
  The rubric criterion that a reported name resolves to: the criterion under the
  lower-cased name, or else the first criterion of the lookup whose key contains the
  lower-cased name or is contained in it.
\<close>

fun partial_match :: "(string \<times> RubricCriterion) list \<Rightarrow> string \<Rightarrow> RubricCriterion option" where
  "partial_match [] cn = None"
| "partial_match ((nm, crit) # rest) cn =
     (if py_in nm cn \<or> py_in cn nm then Some crit else partial_match rest cn)"

definition find_criterion ::
  "(string \<times> RubricCriterion) list \<Rightarrow> string \<Rightarrow> RubricCriterion option" where
  "find_criterion lookup reported =
     (case map_of lookup (lower reported) of
        Some crit \<Rightarrow> Some crit
      | None \<Rightarrow> partial_match lookup (lower reported))"

definition deduction_reason_of :: "runtime \<Rightarrow> (string \<times> pyval) list \<Rightarrow> string option" where
  "deduction_reason_of rt entry =
     (case map_of entry ''deduction_reason'' of
        None \<Rightarrow> None
      | Some PNone \<Rightarrow> None
      | Some v \<Rightarrow> (let s = py_str rt v in if s = ''null'' then None else Some s))"

text \<open>
  The body of the loop over the reported entries: entry \<open>i\<close> is checked against the
  lookup and the set of the criteria seen so far, and gives its criterion result and the
  extended set, or the failure.
\<close>

definition parse_item ::
  "runtime \<Rightarrow> (string \<times> RubricCriterion) list \<Rightarrow> string set \<Rightarrow> nat \<Rightarrow> pyval \<Rightarrow>
   error + (CriterionResult \<times> string set)" where
  "parse_item rt lookup seen_criteria i item =
     (case item of
        PDict entry \<Rightarrow>
          (let reported = py_str rt (dict_get entry ''criterion'' (PStr ''''))
           in if reported = [] then Inl (ScoringError (MissingCriterionName i))
              else case find_criterion lookup reported of
                None \<Rightarrow> Inl (ScoringError (UnknownCriterion reported))
              | Some rubric_criterion \<Rightarrow>
                  if lower (name rubric_criterion) \<in> seen_criteria
                  then Inl (ScoringError (DuplicateCriterion reported))
                  else
                    (case parse_decimal rt (dict_get entry ''awarded_points'' (PNum (Fin 0)))
                            (AwardedPointsField i) of
                       Inl err \<Rightarrow> Inl err
                     | Inr awarded \<Rightarrow>
                         (case dec_lt awarded (Fin 0) of
                            Inl err \<Rightarrow> Inl err
                          | Inr negative \<Rightarrow>
                              if negative
                              then Inl (ScoringError (NegativePoints reported awarded))
                              else
                                (case dec_gt awarded
                                        (Fin (RubricCriterion.max_points rubric_criterion)) of
                                   Inl err \<Rightarrow> Inl err
                                 | Inr exceeds \<Rightarrow>
                                     if exceeds
                                     then Inl (ScoringError (PointsExceedMax reported awarded
                                            (RubricCriterion.max_points rubric_criterion)))
                                     else
                                       (let given =
                                              py_str rt (dict_get entry ''justification''
                                                (PStr ''''))
                                        in if given = []
                                           then Inl (ScoringError (MissingJustification reported))
                                           else
                                             (case CriterionResult_new (name rubric_criterion)
                                                     (Fin (RubricCriterion.max_points
                                                        rubric_criterion))
                                                     awarded given (deduction_reason_of rt entry) of
                                                Inl err \<Rightarrow> Inl err
                                              | Inr r \<Rightarrow>
                                                  Inr (r, insert (lower (name rubric_criterion))
                                                            seen_criteria)))))))
      | _ \<Rightarrow> Inl (ScoringError (NotAnObject i)))"

fun items_loop ::
  "runtime \<Rightarrow> (string \<times> RubricCriterion) list \<Rightarrow> nat \<Rightarrow> pyval list \<Rightarrow>
   CriterionResult list \<Rightarrow> string set \<Rightarrow> error + (CriterionResult list \<times> string set)" where
  "items_loop rt lookup i [] results seen_criteria = Inr (results, seen_criteria)"
| "items_loop rt lookup i (item # rest) results seen_criteria =
     (case parse_item rt lookup seen_criteria i item of
        Inl err \<Rightarrow> Inl err
      | Inr (r, seen') \<Rightarrow> items_loop rt lookup (Suc i) rest (results @ [r]) seen')"

text \<open>
  The names of the missing criteria are the names under the missing keys of the lookup
  (whose keys are distinct); the program lists them in the iteration order of a set.
\<close>

definition parse_criteria_results ::
  "runtime \<Rightarrow> pyval \<Rightarrow> Rubric \<Rightarrow> error + CriterionResult list" where
  "parse_criteria_results rt results_data rubric =
     (case results_data of
        PList items \<Rightarrow>
          (let lookup = rubric_lookup rubric
           in case items_loop rt lookup 0 items [] {} of
                Inl err \<Rightarrow> Inl err
              | Inr (results, seen_criteria) \<Rightarrow>
                  (let missing = set (map fst lookup) - seen_criteria
                   in if missing \<noteq> {}
                      then Inl (ScoringError (MissingCriteria
                             (set (map (\<lambda>(k, crit). name crit)
                                    (filter (\<lambda>(k, crit). k \<in> missing) lookup)))))
                      else Inr results))
      | _ \<Rightarrow> Inl (ScoringError NotAList))"

definition required_fields :: "string list" where
  "required_fields = [''total_score'', ''max_possible'', ''criteria_results'', ''overall_feedback'']"

text \<open>
  \<open>exceeds_tolerance\<close> is the test \<open>abs(reported_total - calculated_total) > Decimal("0.01")\<close>,
  whose outcome the program does not use.
\<close>

definition exceeds_tolerance :: "dec \<Rightarrow> rat \<Rightarrow> error + bool" where
  "exceeds_tolerance reported_total calculated_total =
     (case dec_sub reported_total (Fin calculated_total) of
        Inl err \<Rightarrow> Inl err
      | Inr difference \<Rightarrow>
          (case dec_abs difference of
             Inl err \<Rightarrow> Inl err
           | Inr distance \<Rightarrow> dec_gt distance (Fin (1 / 100))))"

text \<open>
  \<open>validate_and_convert\<close>: the subscripts \<open>data[...]\<close> come after the check of the
  required fields, so their keys are present.
\<close>

definition validate_and_convert ::
  "runtime \<Rightarrow> (string \<times> pyval) list \<Rightarrow> Rubric \<Rightarrow> error + GradingResult" where
  "validate_and_convert rt data rubric =
     (case find (\<lambda>f. map_of data f = None) required_fields of
        Some f \<Rightarrow> Inl (ScoringError (MissingField f))
      | None \<Rightarrow>
          (case parse_criteria_results rt (dict_get data ''criteria_results'' PNone) rubric of
             Inl err \<Rightarrow> Inl err
           | Inr results \<Rightarrow>
               (case parse_decimal rt (dict_get data ''total_score'' PNone) TotalScoreField of
                  Inl err \<Rightarrow> Inl err
                | Inr reported_total \<Rightarrow>
                    (case exceeds_tolerance reported_total
                            (sum_list (map awarded_points results)) of
                       Inl err \<Rightarrow> Inl err
                     | Inr disagrees \<Rightarrow>
                         (case parse_decimal rt (dict_get data ''max_possible'' PNone)
                                 MaxPossibleField of
                            Inl err \<Rightarrow> Inl err
                          | Inr reported_max \<Rightarrow>
                              (case dec_ne reported_max (Fin (total_max_points rubric)) of
                                 Inl err \<Rightarrow> Inl err
                               | Inr differs \<Rightarrow>
                                   if differs
                                   then Inl (ScoringError (MaxPossibleMismatch reported_max
                                          (total_max_points rubric)))
                                   else GradingResult_new (title rubric) results
                                          (py_str rt (dict_get data ''overall_feedback'' PNone))
                                          1 False False))))))"

definition parse :: "runtime \<Rightarrow> string \<Rightarrow> Rubric \<Rightarrow> error + GradingResult" where
  "parse rt response rubric =
     (case json_payload rt response of
        Inl failure \<Rightarrow> Inl (ScoringError failure)
      | Inr data \<Rightarrow> validate_and_convert rt data rubric)"

text \<open>
  The readings that the properties below use. \<open>entry_criterion rt lookup item\<close> is the
  rubric criterion that a reported entry resolves to: the entry is an object with a
  non-empty criterion name, and \<open>find_criterion\<close> finds the criterion. \<open>case_distinct\<close>
  says that the criterion names of a rubric stay pairwise different when lower-cased.
  \<open>with_max_points v item\<close> is the entry \<open>item\<close> with \<open>v\<close> as its echoed \<open>max_points\<close>.
\<close>

definition entry_criterion ::
  "runtime \<Rightarrow> (string \<times> RubricCriterion) list \<Rightarrow> pyval \<Rightarrow> RubricCriterion option" where
  "entry_criterion rt lookup item =
     (case item of
        PDict entry \<Rightarrow>
          (let reported = py_str rt (dict_get entry ''criterion'' (PStr ''''))
           in if reported = [] then None else find_criterion lookup reported)
      | _ \<Rightarrow> None)"

definition case_distinct :: "Rubric \<Rightarrow> bool" where
  "case_distinct rubric = distinct (map (\<lambda>c. lower (name c)) (criteria rubric))"

definition with_max_points :: "pyval \<Rightarrow> pyval \<Rightarrow> pyval" where
  "with_max_points v item =
     (case item of PDict entry \<Rightarrow> PDict ((''max_points'', v) # entry) | _ \<Rightarrow> item)"

text \<open>
  Example data. \<open>example_runtime payloads\<close> decodes the completions listed in \<open>payloads\<close>
  and finds no JSON in any other; the examples give every name and justification as a
  string and every number as a number. \<open>essay_rubric\<close> has two criteria;
  \<open>colliding_rubric\<close> has two criteria whose names differ in case only. \<open>entry_of\<close>
  is a reported entry (it echoes 99 as \<open>max_points\<close>), \<open>payload_of\<close> a decoded completion.
\<close>

definition example_runtime :: "(string \<times> (string \<times> pyval) list) list \<Rightarrow> runtime" where
  "example_runtime payloads =
     \<lparr>str_of = (\<lambda>v. ''None''),
      decimal_of_string = (\<lambda>s. None),
      json_payload =
        (\<lambda>response. case map_of payloads response of
                       None \<Rightarrow> Inl NoJsonObject
                     | Some data \<Rightarrow> Inr data)\<rparr>"

definition essay_rubric :: Rubric where
  "essay_rubric =
     \<lparr>title = ''Essay'', Rubric.description = '''',
      criteria =
        [\<lparr>name = ''Content Accuracy'', description = ''Accuracy of the content'',
          RubricCriterion.max_points = 30, allows_partial_credit = True\<rparr>,
         \<lparr>name = ''Clarity'', description = ''Ideas are expressed clearly'',
          RubricCriterion.max_points = 25, allows_partial_credit = True\<rparr>]\<rparr>"

definition colliding_rubric :: Rubric where
  "colliding_rubric =
     \<lparr>title = ''Essay'', Rubric.description = '''',
      criteria =
        [\<lparr>name = ''Content'', description = ''Accuracy of the content'',
          RubricCriterion.max_points = 10, allows_partial_credit = True\<rparr>,
         \<lparr>name = ''content'', description = ''Depth of the content'',
          RubricCriterion.max_points = 20, allows_partial_credit = True\<rparr>]\<rparr>"

definition entry_of :: "string \<Rightarrow> rat \<Rightarrow> pyval" where
  "entry_of reported awarded =
     PDict [(''criterion'', PStr reported), (''max_points'', PNum (Fin 99)),
            (''awarded_points'', PNum (Fin awarded)),
            (''justification'', PStr ''Quoted from the answer''),
            (''deduction_reason'', PStr ''null'')]"

definition payload_of :: "rat \<Rightarrow> rat \<Rightarrow> pyval list \<Rightarrow> (string \<times> pyval) list" where
  "payload_of reported_total reported_max items =
     [(''total_score'', PNum (Fin reported_total)), (''max_possible'', PNum (Fin reported_max)),
      (''criteria_results'', PList items), (''overall_feedback'', PStr ''Clear and accurate'')]"

definition result_of :: "string \<Rightarrow> rat \<Rightarrow> rat \<Rightarrow> CriterionResult" where
  "result_of canonical maximum awarded =
     \<lparr>criterion_name = canonical, max_points = maximum, awarded_points = awarded,
      justification = ''Quoted from the answer'', deduction_reason = None\<rparr>"

definition graded :: "CriterionResult list \<Rightarrow> GradingResult" where
  "graded results =
     \<lparr>rubric_title = ''Essay'', criteria_results = results,
      overall_feedback = ''Clear and accurate'', llm_passes_used = 1,
      variance_detected = False, flagged_for_review = False\<rparr>"

definition items_good :: "pyval list" where
  "items_good = [entry_of ''clarity of expression'' 20, entry_of ''content accuracy'' 28]"

definition example_payloads :: "(string \<times> (string \<times> pyval) list) list" where
  "example_payloads =
     [(''good'', payload_of 48 55 items_good),
      (''total off'', (''total_score'', PNum (Fin 999)) # payload_of 48 55 items_good),
      (''max off'', payload_of 48 100 items_good),
      (''max fixed'', (''max_possible'', PNum (Fin 55)) # payload_of 48 100 items_good),
      (''echo'',
         (''criteria_results'', PList (map2 with_max_points [PNum (Fin 30), PNone] items_good))
           # payload_of 48 55 items_good),
      (''collide'', payload_of 5 30 [entry_of ''content'' 5])]"

definition examples :: runtime where
  "examples = example_runtime example_payloads"


definition keyed :: "(string \<times> RubricCriterion) list \<Rightarrow> bool" where
  "keyed lookup = (\<forall>(k, c) \<in> set lookup. k = lower (name c))"


section \<open>Rubric parser (src/rubric/parser.py)\<close>

subsection \<open>Regular expressions\<close>

text \<open>
  The patterns of the parser are terms of \<open>rx\<close>, and \<open>rx_match\<close> is a backtracking matcher
  in the manner of Python's \<open>re\<close>: from a state (the text still to read and the groups
  captured so far) it lists the states in which a match of the pattern can end, in the
  order in which backtracking tries them. Repetition is greedy: one more round comes
  before stopping. A round that reads nothing ends the repetition, so the length of the
  text bounds the number of rounds. \<open>re_match\<close> is \<open>pattern.match(text)\<close>: the groups of the
  first way to match at the start of the text.
\<close>

datatype rx =
    Chars "char \<Rightarrow> bool"
  | Eps
  | Seq rx rx
  | Alt rx rx
  | Star rx
  | Group nat rx
  | EndOfText

type_synonym mstate = "string \<times> (nat \<times> string) list"

fun star_from :: "(mstate \<Rightarrow> mstate list) \<Rightarrow> nat \<Rightarrow> mstate \<Rightarrow> mstate list" where
  "star_from body 0 st = [st]"
| "star_from body (Suc n) st =
     concat (map (\<lambda>st'. if length (fst st') < length (fst st) then star_from body n st' else [])
               (body st))
     @ [st]"

primrec rx_match :: "rx \<Rightarrow> mstate \<Rightarrow> mstate list" where
  "rx_match (Chars p) st =
     (case fst st of [] \<Rightarrow> [] | c # cs \<Rightarrow> if p c then [(cs, snd st)] else [])"
| "rx_match Eps st = [st]"
| "rx_match (Seq a b) st = concat (map (rx_match b) (rx_match a st))"
| "rx_match (Alt a b) st = rx_match a st @ rx_match b st"
| "rx_match (Star a) st = star_from (rx_match a) (length (fst st)) st"
| "rx_match (Group n a) st =
     map (\<lambda>st'. (fst st', (n, take (length (fst st) - length (fst st')) (fst st)) # snd st'))
       (rx_match a st)"
| "rx_match EndOfText st = (if fst st = [] \<or> fst st = [CHR 0x0A] then [st] else [])"

definition re_match :: "rx \<Rightarrow> string \<Rightarrow> (nat \<times> string) list option" where
  "re_match pattern text =
     (case rx_match pattern (text, []) of [] \<Rightarrow> None | st # others \<Rightarrow> Some (snd st))"

text \<open>\<open>match_group m n\<close> is \<open>m.group(n)\<close> for a group that took part in the match.\<close>

definition match_group :: "(nat \<times> string) list \<Rightarrow> nat \<Rightarrow> string" where
  "match_group m n = (case map_of m n of None \<Rightarrow> [] | Some s \<Rightarrow> s)"

text \<open>
  \<open>rx_lit s\<close> is the literal text \<open>s\<close> under \<open>re.IGNORECASE\<close>, \<open>rx_plus r\<close> is \<open>r+\<close>, \<open>rx_opt r\<close> is
  \<open>r?\<close> and \<open>rx_seqs\<close> a sequence.
\<close>

definition rx_lit :: "string \<Rightarrow> rx" where
  "rx_lit s = foldr (\<lambda>c r. Seq (Chars (\<lambda>x. lower_char x = lower_char c)) r) s Eps"

definition rx_plus :: "rx \<Rightarrow> rx" where
  "rx_plus r = Seq r (Star r)"

definition rx_opt :: "rx \<Rightarrow> rx" where
  "rx_opt r = Alt r Eps"

definition rx_seqs :: "rx list \<Rightarrow> rx" where
  "rx_seqs rs = foldr Seq rs Eps"

definition rx_units :: rx where
  "rx_units =
     Alt (Seq (rx_lit ''point'') (rx_opt (rx_lit ''s'')))
       (Alt (Seq (rx_lit ''pt'') (rx_opt (rx_lit ''s'')))
          (Seq (rx_lit ''mark'') (rx_opt (rx_lit ''s''))))"

definition rx_number :: rx where
  "rx_number =
     Seq (rx_plus (Chars isdigit)) (rx_opt (Seq (rx_lit ''.'') (rx_plus (Chars isdigit))))"

text \<open>
  \<open>NUMBERED_PATTERN\<close>:
  \<^verbatim>\<open>^\s*(\d+)\.\s*([^(]+)\((\d+(?:\.\d+)?)\s*(?:points?|pts?|marks?)\)[:\s]*(.*)$\<close>
\<close>

definition NUMBERED_PATTERN :: rx where
  "NUMBERED_PATTERN =
     rx_seqs [Star (Chars isspace),
           Group 1 (rx_plus (Chars isdigit)),
           rx_lit ''.'',
           Star (Chars isspace),
           Group 2 (rx_plus (Chars (\<lambda>c. c \<noteq> CHR ''(''))),
           rx_lit ''('',
           Group 3 rx_number,
           Star (Chars isspace),
           rx_units,
           rx_lit '')'',
           Star (Chars (\<lambda>c. c = CHR '':'' \<or> isspace c)),
           Group 4 (Star (Chars (\<lambda>c. c \<noteq> CHR 0x0A))),
           EndOfText]"

subsection \<open>The parser\<close>

text \<open>
  \<open>decimal_of_literal\<close> is \<open>Decimal(s)\<close> on the texts that the patterns capture as points:
  digits, with an optional fraction.
\<close>

definition digit_value :: "char \<Rightarrow> nat" where
  "digit_value c = of_char c - 48"

definition nat_of_digits :: "string \<Rightarrow> nat" where
  "nat_of_digits s = foldl (\<lambda>n c. 10 * n + digit_value c) 0 s"

definition decimal_of_literal :: "string \<Rightarrow> rat option" where
  "decimal_of_literal s =
     (let whole = takeWhile isdigit s; rest = dropWhile isdigit s
      in if whole = [] then None
         else case rest of
                [] \<Rightarrow> Some (of_nat (nat_of_digits whole))
              | c # fraction \<Rightarrow>
                  if c = CHR ''.'' \<and> fraction \<noteq> [] \<and> list_all isdigit fraction
                  then Some (of_nat (nat_of_digits whole)
                             + of_nat (nat_of_digits fraction) / 10 ^ length fraction)
                  else None)"

definition parse_points :: "string \<Rightarrow> nat \<Rightarrow> error + rat" where
  "parse_points points_str line_num =
     (case decimal_of_literal (strip points_str) of
        None \<Rightarrow> Inl (RubricParseError (InvalidPoints points_str) (Some line_num))
      | Some points \<Rightarrow>
          if points \<le> 0 then Inl (RubricParseError (PointsNotPositive points) (Some line_num))
          else Inr points)"

definition try_numbered_format :: "string \<Rightarrow> nat \<Rightarrow> error + RubricCriterion option" where
  "try_numbered_format line line_num =
     (case re_match NUMBERED_PATTERN line of
        None \<Rightarrow> Inr None
      | Some m \<Rightarrow>
          (let criterion = strip (match_group m 2)
           in case parse_points (match_group m 3) line_num of
                Inl err \<Rightarrow> Inl err
              | Inr points \<Rightarrow>
                  (let described =
                         (if strip (match_group m 4) = [] then ''Evaluation of '' @ criterion
                          else strip (match_group m 4))
                   in case RubricCriterion_new criterion described (Fin points) True of
                        Inl err \<Rightarrow> Inl err
                      | Inr c \<Rightarrow> Inr (Some c))))"

text \<open>
  The lines that \<open>_parse_lines\<close> skips: empty lines, headings, rules, and the separator
  rows of a table.
\<close>

definition skipped :: "string \<Rightarrow> bool" where
  "skipped stripped =
     (stripped = [] \<or> startswith ''#'' stripped \<or> startswith ''---'' stripped \<or>
      (startswith ''|'' stripped \<and>
       set (strip (filter (\<lambda>c. c \<noteq> CHR ''|'') stripped)) \<subseteq> {CHR ''-'', CHR '':''}))"

text \<open>
  A line is tried against the numbered format first. The three formats that follow it
  (dash-separated, colon-separated, table row) are taken together as the parameter
  \<open>other_formats\<close>: the outcome of
  \<open>_try_simple_format(..) or _try_colon_format(..) or _try_table_format(..)\<close> on the
  stripped line. The properties below hold for every such outcome.
\<close>

fun parse_lines_loop ::
  "(string \<Rightarrow> nat \<Rightarrow> error + RubricCriterion option) \<Rightarrow> nat \<Rightarrow> string list \<Rightarrow>
   RubricCriterion list \<Rightarrow> error + RubricCriterion list" where
  "parse_lines_loop other_formats line_num [] found = Inr found"
| "parse_lines_loop other_formats line_num (line # rest) found =
     (let stripped = strip line
      in if skipped stripped then parse_lines_loop other_formats (Suc line_num) rest found
         else case try_numbered_format stripped line_num of
                Inl err \<Rightarrow> Inl err
              | Inr (Some c) \<Rightarrow> parse_lines_loop other_formats (Suc line_num) rest (found @ [c])
              | Inr None \<Rightarrow>
                  (case other_formats stripped line_num of
                     Inl err \<Rightarrow> Inl err
                   | Inr (Some c) \<Rightarrow>
                       parse_lines_loop other_formats (Suc line_num) rest (found @ [c])
                   | Inr None \<Rightarrow> parse_lines_loop other_formats (Suc line_num) rest found))"

definition parse_lines ::
  "(string \<Rightarrow> nat \<Rightarrow> error + RubricCriterion option) \<Rightarrow> string list \<Rightarrow>
   error + RubricCriterion list" where
  "parse_lines other_formats lines = parse_lines_loop other_formats 1 lines []"

text \<open>\<open>split_lines s\<close> is \<open>s.split("\n")\<close>; \<open>re_search\<close> is \<open>re.search\<close>, as a truth value.\<close>

fun split_lines :: "string \<Rightarrow> string list" where
  "split_lines [] = [[]]"
| "split_lines (c # cs) =
     (if c = CHR 0x0A then [] # split_lines cs
      else case split_lines cs of
             first # others \<Rightarrow> (c # first) # others
           | [] \<Rightarrow> [[c]])"

fun re_search :: "rx \<Rightarrow> string \<Rightarrow> bool" where
  "re_search pattern [] = (re_match pattern [] \<noteq> None)"
| "re_search pattern (c # cs) = (re_match pattern (c # cs) \<noteq> None \<or> re_search pattern cs)"

text \<open>The pattern of \<open>_extract_title\<close>: \<^verbatim>\<open>\d+\s*(?:points?|pts?|marks?)\<close>.\<close>

definition POINTS_PATTERN :: rx where
  "POINTS_PATTERN = rx_seqs [rx_plus (Chars isdigit), Star (Chars isspace), rx_units]"

fun extract_title :: "string list \<Rightarrow> string option" where
  "extract_title [] = None"
| "extract_title (line # rest) =
     (let stripped = strip line
      in if startswith ''#'' stripped
         then Some (strip (dropWhile (\<lambda>c. c = CHR ''#'') stripped))
         else if stripped \<noteq> [] \<and> \<not> re_search POINTS_PATTERN stripped
         then (if length stripped < 100 \<and>
                  \<not> (\<exists>c \<in> set ''|-:''. c \<in> set stripped)
               then Some stripped
               else None)
         else extract_title rest)"

text \<open>
  \<open>parse\<close> of the rubric parser, named \<open>parse_rubric\<close> here (the result parser's
  \<open>parse\<close> has the name). An extracted title that is empty counts as none
  (\<open>self._extract_title(lines) or title\<close>).
\<close>

definition parse_rubric ::
  "(string \<Rightarrow> nat \<Rightarrow> error + RubricCriterion option) \<Rightarrow> string \<Rightarrow> string \<Rightarrow> error + Rubric" where
  "parse_rubric other_formats content fallback =
     (if strip content = [] then Inl (RubricParseError EmptyContent None)
      else let lines = split_lines (strip content)
           in case parse_lines other_formats lines of
                Inl err \<Rightarrow> Inl err
              | Inr found \<Rightarrow>
                  if found = [] then Inl (RubricParseError NoValidCriteria None)
                  else Rubric_new
                         (case extract_title lines of
                            None \<Rightarrow> fallback
                          | Some t \<Rightarrow> if t = [] then fallback else t)
                         [] found)"

text \<open>The line of the specification's example, and the criterion it stands for.\<close>

definition clarity_line :: string where
  "clarity_line = ''1. Clarity (25 points): Ideas are expressed clearly''"

definition clarity_criterion :: RubricCriterion where
  "clarity_criterion =
     \<lparr>name = ''Clarity'', description = ''Ideas are expressed clearly'',
      RubricCriterion.max_points = 25, allows_partial_credit = True\<rparr>"

text \<open>
  Example data: a rubric text with a title line, an empty line and the example line
  (indented), and a parser none of whose other formats applies.
\<close>

definition essay_text :: string where
  "essay_text = ''Essay Rubric'' @ [CHR 0x0A, CHR 0x0A] @ ''  '' @ clarity_line"

definition no_other_format :: "string \<Rightarrow> nat \<Rightarrow> error + RubricCriterion option" where
  "no_other_format stripped line_num = Inr None"

section \<open>Properties of the models\<close>

lemma card_set_names: "length names \<noteq> card (set names) \<longleftrightarrow> \<not> distinct names"
  using distinct_card card_distinct by metis

lemma Rubric_new_Inr_iff:
  "Rubric_new t d cs = Inr r \<longleftrightarrow>
     1 \<le> length t \<and> length t \<le> 500 \<and> cs \<noteq> [] \<and> distinct (map name cs) \<and>
     r = \<lparr>title = t, Rubric.description = d, criteria = cs\<rparr>"
  by (cases cs) (auto simp: Rubric_new_def validate_no_duplicate_names_def Let_def card_set_names)

text \<open>
  C1, as the code has it. Constructing a Rubric from a list of criteria in which two
  criteria carry the same name, character for character, fails with a validation error.
  The comparison is case-sensitive: names that differ in case only are different names
  for the constructor.
\<close>

theorem Rubric_new_rejects_equal_names:
  assumes "i < j" and "j < length cs" and "name (cs ! i) = name (cs ! j)"
  shows "\<exists>issues. Rubric_new t d cs = Inl (ValidationError issues)"
proof -
  have "i < length (map name cs)" "j < length (map name cs)" "i \<noteq> j"
    "map name cs ! i = map name cs ! j"
    using assms by simp_all
  then have "\<not> distinct (map name cs)"
    unfolding distinct_conv_nth by blast
  then show ?thesis
    by (auto simp: Rubric_new_def validate_no_duplicate_names_def Let_def card_set_names)
qed

theorem Rubric_new_rejects_equal_names_witness:
  "(0::nat) < 1 \<and>
   1 < length
         [\<lparr>name = ''Same Name'', description = ''Description one that is long enough'',
            RubricCriterion.max_points = 10, allows_partial_credit = True\<rparr>,
          \<lparr>name = ''Same Name'', description = ''Description two that is long enough'',
            RubricCriterion.max_points = 10, allows_partial_credit = True\<rparr>] \<and>
   (\<exists>issues.
      Rubric_new ''Test Rubric'' ''''
        [\<lparr>name = ''Same Name'', description = ''Description one that is long enough'',
           RubricCriterion.max_points = 10, allows_partial_credit = True\<rparr>,
         \<lparr>name = ''Same Name'', description = ''Description two that is long enough'',
           RubricCriterion.max_points = 10, allows_partial_credit = True\<rparr>]
      = Inl (ValidationError issues))"
  using Rubric_new_rejects_equal_names [of 0 1
      "[\<lparr>name = ''Same Name'', description = ''Description one that is long enough'',
          RubricCriterion.max_points = 10, allows_partial_credit = True\<rparr>,
        \<lparr>name = ''Same Name'', description = ''Description two that is long enough'',
          RubricCriterion.max_points = 10, allows_partial_credit = True\<rparr>]"
      "''Test Rubric''" "''''"]
  by simp

text \<open>
  The criteria named \<open>Content\<close> and \<open>content\<close> have the same lower-cased name, both are
  valid criteria, and the Rubric made of the two is constructed.
\<close>

theorem Rubric_new_accepts_case_variants:
  "lower ''Content'' = lower ''content'' \<and>
   RubricCriterion_new ''Content'' ''Accuracy of the content'' (Fin 10) True =
     Inr \<lparr>name = ''Content'', description = ''Accuracy of the content'',
          RubricCriterion.max_points = 10, allows_partial_credit = True\<rparr> \<and>
   RubricCriterion_new ''content'' ''Depth of the content'' (Fin 20) True =
     Inr \<lparr>name = ''content'', description = ''Depth of the content'',
          RubricCriterion.max_points = 20, allows_partial_credit = True\<rparr> \<and>
   Rubric_new ''Essay'' ''''
     [\<lparr>name = ''Content'', description = ''Accuracy of the content'',
        RubricCriterion.max_points = 10, allows_partial_credit = True\<rparr>,
      \<lparr>name = ''content'', description = ''Depth of the content'',
        RubricCriterion.max_points = 20, allows_partial_credit = True\<rparr>] =
     Inr \<lparr>title = ''Essay'', Rubric.description = '''',
          criteria =
            [\<lparr>name = ''Content'', description = ''Accuracy of the content'',
               RubricCriterion.max_points = 10, allows_partial_credit = True\<rparr>,
             \<lparr>name = ''content'', description = ''Depth of the content'',
               RubricCriterion.max_points = 20, allows_partial_credit = True\<rparr>]\<rparr>"
  by (simp add: lower_def lower_char_def RubricCriterion_new_def Rubric_new_def
      validate_no_duplicate_names_def)

lemma constructed_bounds:
  "constructed r \<Longrightarrow> 0 \<le> awarded_points r \<and> awarded_points r \<le> CriterionResult.max_points r"
  by (auto simp: constructed_def CriterionResult_new_def validate_points_range_def Let_def
      split: if_splits)

lemma CriterionResult_new_constructed:
  "CriterionResult_new cn mp ap j dr = Inr r \<Longrightarrow> constructed r"
  by (auto simp: constructed_def CriterionResult_new_def validate_points_range_def Let_def
      split: if_splits dec.splits)

lemma sum_awarded_bounds:
  "\<forall>r \<in> set crs. constructed r \<Longrightarrow>
   0 \<le> sum_list (map awarded_points crs) \<and>
   sum_list (map awarded_points crs) \<le> sum_list (map CriterionResult.max_points crs)"
  by (induction crs) (auto dest: constructed_bounds intro: add_mono)

text \<open>
  C2. A CriterionResult that its constructor returns has
  \<open>0 \<le> awarded_points \<le> max_points\<close>. A GradingResult that its constructor returns,
  on criterion results that are themselves outcomes of their constructor, has
  \<open>0 \<le> total_awarded \<le> total_max\<close> and \<open>0 \<le> percentage_score \<le> 100\<close>.
\<close>

theorem result_bounds:
  "(CriterionResult_new cn mp ap j dr = Inr r \<longrightarrow>
      0 \<le> awarded_points r \<and> awarded_points r \<le> CriterionResult.max_points r) \<and>
   (GradingResult_new rt crs fb n vd fl = Inr g \<and> (\<forall>c \<in> set crs. constructed c) \<longrightarrow>
      0 \<le> total_awarded g \<and> total_awarded g \<le> total_max g \<and>
      0 \<le> percentage_score g \<and> percentage_score g \<le> 100)"
proof (intro conjI impI)
  assume "CriterionResult_new cn mp ap j dr = Inr r"
  then have "constructed r" by (rule CriterionResult_new_constructed)
  then show "0 \<le> awarded_points r" "awarded_points r \<le> CriterionResult.max_points r"
    by (simp_all add: constructed_bounds)
next
  assume a: "GradingResult_new rt crs fb n vd fl = Inr g \<and> (\<forall>c \<in> set crs. constructed c)"
  then have g: "criteria_results g = crs"
    by (auto simp: GradingResult_new_def Let_def split: if_splits)
  from a have b: "0 \<le> total_awarded g" "total_awarded g \<le> total_max g"
    using sum_awarded_bounds [of crs] by (simp_all add: total_awarded_def total_max_def g)
  show "0 \<le> total_awarded g" "total_awarded g \<le> total_max g" by fact+
  show "0 \<le> percentage_score g"
    using b by (simp add: percentage_score_def)
  show "percentage_score g \<le> 100"
  proof (cases "total_max g = 0")
    case True
    then show ?thesis by (simp add: percentage_score_def)
  next
    case False
    with b have "0 < total_max g" by linarith
    then have q: "total_awarded g / total_max g \<le> 1"
      using b by (simp add: divide_le_eq_1)
    have "percentage_score g = total_awarded g / total_max g * 100"
      using False by (simp add: percentage_score_def)
    also have "\<dots> \<le> 1 * 100"
      by (rule mult_right_mono) (use q in simp_all)
    finally show ?thesis by simp
  qed
qed

theorem result_bounds_witness:
  "(CriterionResult_new ''Content Accuracy'' (Fin 30) (Fin 28) ''Accurate facts'' None =
      Inr \<lparr>criterion_name = ''Content Accuracy'', max_points = 30, awarded_points = 28,
           justification = ''Accurate facts'', deduction_reason = None\<rparr> \<and>
    0 \<le> awarded_points
          \<lparr>criterion_name = ''Content Accuracy'', max_points = 30, awarded_points = 28,
           justification = ''Accurate facts'', deduction_reason = None\<rparr> \<and>
    awarded_points
      \<lparr>criterion_name = ''Content Accuracy'', max_points = 30, awarded_points = 28,
       justification = ''Accurate facts'', deduction_reason = None\<rparr>
    \<le> CriterionResult.max_points
        \<lparr>criterion_name = ''Content Accuracy'', max_points = 30, awarded_points = 28,
         justification = ''Accurate facts'', deduction_reason = None\<rparr>) \<and>
   (GradingResult_new ''Essay''
      [\<lparr>criterion_name = ''Content Accuracy'', max_points = 30, awarded_points = 28,
         justification = ''Accurate facts'', deduction_reason = None\<rparr>]
      ''Well done'' 1 False False =
      Inr \<lparr>rubric_title = ''Essay'',
           criteria_results =
             [\<lparr>criterion_name = ''Content Accuracy'', max_points = 30, awarded_points = 28,
                justification = ''Accurate facts'', deduction_reason = None\<rparr>],
           overall_feedback = ''Well done'', llm_passes_used = 1, variance_detected = False,
           flagged_for_review = False\<rparr> \<and>
    constructed
      \<lparr>criterion_name = ''Content Accuracy'', max_points = 30, awarded_points = 28,
       justification = ''Accurate facts'', deduction_reason = None\<rparr> \<and>
    total_awarded
      \<lparr>rubric_title = ''Essay'',
       criteria_results =
         [\<lparr>criterion_name = ''Content Accuracy'', max_points = 30, awarded_points = 28,
            justification = ''Accurate facts'', deduction_reason = None\<rparr>],
       overall_feedback = ''Well done'', llm_passes_used = 1, variance_detected = False,
       flagged_for_review = False\<rparr> = 28 \<and>
    percentage_score
      \<lparr>rubric_title = ''Essay'',
       criteria_results =
         [\<lparr>criterion_name = ''Content Accuracy'', max_points = 30, awarded_points = 28,
            justification = ''Accurate facts'', deduction_reason = None\<rparr>],
       overall_feedback = ''Well done'', llm_passes_used = 1, variance_detected = False,
       flagged_for_review = False\<rparr> \<le> 100)"
  using result_bounds [of "''Content Accuracy''" "Fin 30" "Fin 28" "''Accurate facts''" None
      "\<lparr>criterion_name = ''Content Accuracy'', max_points = 30, awarded_points = 28,
         justification = ''Accurate facts'', deduction_reason = None\<rparr>"
      "''Essay''"
      "[\<lparr>criterion_name = ''Content Accuracy'', max_points = 30, awarded_points = 28,
         justification = ''Accurate facts'', deduction_reason = None\<rparr>]"
      "''Well done''" 1 False False
      "\<lparr>rubric_title = ''Essay'',
           criteria_results =
             [\<lparr>criterion_name = ''Content Accuracy'', max_points = 30, awarded_points = 28,
                justification = ''Accurate facts'', deduction_reason = None\<rparr>],
           overall_feedback = ''Well done'', llm_passes_used = 1, variance_detected = False,
           flagged_for_review = False\<rparr>"]
  by (simp add: CriterionResult_new_def validate_points_range_def GradingResult_new_def
      constructed_def total_awarded_def)

section \<open>Properties of the grading engine\<close>















section \<open>Properties of the rubric validator\<close>

lemma startswith_iff: "startswith p s \<longleftrightarrow> (\<exists>suf. s = p @ suf)"
  by (induction p s rule: startswith.induct) auto

lemma py_in_iff: "py_in sub s \<longleftrightarrow> (\<exists>pre suf. s = pre @ sub @ suf)"
proof (induction s)
  case Nil
  then show ?case by auto
next
  case (Cons c cs)
  show ?case
  proof
    assume "py_in sub (c # cs)"
    then consider "startswith sub (c # cs)" | "py_in sub cs" by auto
    then show "\<exists>pre suf. c # cs = pre @ sub @ suf"
    proof cases
      case 1
      then obtain suf where "c # cs = sub @ suf" by (auto simp: startswith_iff)
      then have "c # cs = [] @ sub @ suf" by simp
      then show ?thesis by blast
    next
      case 2
      then obtain pre suf where "cs = pre @ sub @ suf" using Cons.IH by auto
      then have "c # cs = (c # pre) @ sub @ suf" by simp
      then show ?thesis by blast
    qed
  next
    assume "\<exists>pre suf. c # cs = pre @ sub @ suf"
    then obtain pre suf where e: "c # cs = pre @ sub @ suf" by auto
    show "py_in sub (c # cs)"
    proof (cases pre)
      case Nil
      then have "startswith sub (c # cs)" using e by (auto simp: startswith_iff)
      then show ?thesis by simp
    next
      case (Cons a pre')
      then have "cs = pre' @ sub @ suf" using e by simp
      then have "py_in sub cs" using Cons.IH by blast
      then show ?thesis by simp
    qed
  qed
qed

lemma tokens_from_occurs:
  "w \<in> set (tokens_from cur s) \<Longrightarrow> \<exists>pre suf. cur @ s = pre @ w @ suf"
proof (induction s arbitrary: cur)
  case Nil
  then have "w = cur" by (auto split: if_splits)
  then have "cur @ [] = [] @ w @ []" by simp
  then show ?case by blast
next
  case (Cons c cs)
  show ?case
  proof (cases "is_word_char c")
    case True
    with Cons.prems have "w \<in> set (tokens_from (cur @ [c]) cs)" by simp
    from Cons.IH [OF this] show ?thesis by simp
  next
    case False
    with Cons.prems consider "w = cur" | "w \<in> set (tokens_from [] cs)"
      by (auto split: if_splits)
    then show ?thesis
    proof cases
      case 1
      then have "cur @ c # cs = [] @ w @ (c # cs)" by simp
      then show ?thesis by blast
    next
      case 2
      from Cons.IH [OF this] obtain pre suf where "cs = pre @ w @ suf" by auto
      then have "cur @ c # cs = (cur @ c # pre) @ w @ suf" by simp
      then show ?thesis by blast
    qed
  qed
qed

lemma token_py_in: "w \<in> set (tokens s) \<Longrightarrow> py_in w s"
  using tokens_from_occurs [of w "[]" s] by (simp add: tokens_def py_in_iff)

lemma vague_found_set:
  "set (vague_found c) =
     {w \<in> set VAGUE_WORDS. \<exists>pre suf. lower (RubricCriterion.description c) = pre @ w @ suf}"
  by (auto simp: vague_found_def Let_def py_in_iff)

lemma vague_issue_iff:
  "VagueDescription i n ws \<in> set (validate_criterion c k) \<longleftrightarrow>
     i = k \<and> n = name c \<and> ws = set (vague_found c) \<and> vague_found c \<noteq> []"
  by (auto simp: validate_criterion_def)

text \<open>
  C9, as the code has it. For a criterion at position \<open>i\<close>, the validator reports a
  vague-description issue exactly when a word of the fixed vocabulary occurs in the
  lower-cased description as a contiguous substring, whether or not it stands there as
  a word of its own; the issue lists exactly the words of the vocabulary that occur so.
  In particular a description that has a vocabulary word as a token is reported.
\<close>

theorem vague_issue_iff_substring:
  "((\<exists>ws. VagueDescription i (name c) ws \<in> set (validate_criterion c i)) \<longleftrightarrow>
      (\<exists>w \<in> set VAGUE_WORDS. \<exists>pre suf. lower (RubricCriterion.description c) = pre @ w @ suf)) \<and>
   (VagueDescription i n ws \<in> set (validate_criterion c i) \<longrightarrow>
      ws = {w \<in> set VAGUE_WORDS.
              \<exists>pre suf. lower (RubricCriterion.description c) = pre @ w @ suf}) \<and>
   (has_vague_token c \<longrightarrow>
      (\<exists>ws. VagueDescription i (name c) ws \<in> set (validate_criterion c i)))"
proof (intro conjI)
  have ne: "vague_found c \<noteq> [] \<longleftrightarrow> set (vague_found c) \<noteq> {}" by simp
  show a: "(\<exists>ws. VagueDescription i (name c) ws \<in> set (validate_criterion c i)) \<longleftrightarrow>
      (\<exists>w \<in> set VAGUE_WORDS. \<exists>pre suf. lower (RubricCriterion.description c) = pre @ w @ suf)"
    unfolding vague_issue_iff ne vague_found_set by blast
  show "VagueDescription i n ws \<in> set (validate_criterion c i) \<longrightarrow>
      ws = {w \<in> set VAGUE_WORDS.
              \<exists>pre suf. lower (RubricCriterion.description c) = pre @ w @ suf}"
    unfolding vague_issue_iff vague_found_set by blast
  show "has_vague_token c \<longrightarrow>
      (\<exists>ws. VagueDescription i (name c) ws \<in> set (validate_criterion c i))"
  proof
    assume "has_vague_token c"
    then obtain w where w: "w \<in> set VAGUE_WORDS"
      "w \<in> set (tokens (lower (RubricCriterion.description c)))"
      by (auto simp: has_vague_token_def)
    from token_py_in [OF w(2)] have "\<exists>pre suf. lower (RubricCriterion.description c) = pre @ w @ suf"
      by (simp add: py_in_iff)
    with w(1) a show "\<exists>ws. VagueDescription i (name c) ws \<in> set (validate_criterion c i)"
      by blast
  qed
qed

lemma vague_criterion_lower:
  "lower ''The answer should be good and appropriate for the question'' =
     ''the answer should be good and appropriate for the question''"
  by (simp add: lower_def lower_char_def)

lemma vague_criterion_found: "vague_found vague_criterion = [''good'', ''appropriate'']"
  by (simp add: vague_found_def vague_criterion_def vague_criterion_lower VAGUE_WORDS_def)

lemma vague_criterion_token: "has_vague_token vague_criterion"
  by (simp add: has_vague_token_def vague_criterion_def vague_criterion_lower VAGUE_WORDS_def
      tokens_def is_word_char_def)

lemma vague_criterion_issues:
  "validate_criterion vague_criterion 1 =
     [VagueDescription 1 ''Criterion A'' {''good'', ''appropriate''}]"
  unfolding validate_criterion_def vague_criterion_found
  by (simp add: vague_criterion_def strip_def isspace_def MIN_DESCRIPTION_LENGTH_def
      MAX_POINTS_PER_CRITERION_def)

theorem vague_issue_iff_substring_witness:
  "has_vague_token vague_criterion \<and>
   validate_criterion vague_criterion 1 =
     [VagueDescription 1 ''Criterion A'' {''good'', ''appropriate''}] \<and>
   {''good'', ''appropriate''} =
     {w \<in> set VAGUE_WORDS.
        \<exists>pre suf. lower (RubricCriterion.description vague_criterion) = pre @ w @ suf}"
  using vague_issue_iff_substring
    [of 1 vague_criterion "''Criterion A''" "{''good'', ''appropriate''}"]
    vague_criterion_token vague_criterion_issues
  by simp

text \<open>
  The description ``All terms are defined precisely'' has no token of the vocabulary, and
  the validator reports it as vague: \<open>fine\<close> occurs inside \<open>defined\<close>.
\<close>

lemma defined_criterion_lower:
  "lower ''All terms are defined precisely'' = ''all terms are defined precisely''"
  by (simp add: lower_def lower_char_def)

lemma defined_criterion_found: "vague_found defined_criterion = [''fine'']"
  by (simp add: vague_found_def defined_criterion_def defined_criterion_lower VAGUE_WORDS_def)

theorem vague_issue_without_token:
  "validate_criterion defined_criterion 1 = [VagueDescription 1 ''Definitions'' {''fine''}] \<and>
   tokens (lower (RubricCriterion.description defined_criterion)) =
     [''all'', ''terms'', ''are'', ''defined'', ''precisely''] \<and>
   \<not> has_vague_token defined_criterion"
proof -
  have "validate_criterion defined_criterion 1 =
      [VagueDescription 1 ''Definitions'' {''fine''}]"
    unfolding validate_criterion_def defined_criterion_found
    by (simp add: defined_criterion_def strip_def isspace_def MIN_DESCRIPTION_LENGTH_def
        MAX_POINTS_PER_CRITERION_def)
  moreover have t: "tokens (lower (RubricCriterion.description defined_criterion)) =
     [''all'', ''terms'', ''are'', ''defined'', ''precisely'']"
    by (simp add: defined_criterion_def defined_criterion_lower tokens_def is_word_char_def)
  moreover have "\<not> has_vague_token defined_criterion"
    unfolding has_vague_token_def t by (simp add: VAGUE_WORDS_def)
  ultimately show ?thesis by blast
qed

section \<open>Properties of the result parser\<close>











lemma partial_match_in: "partial_match lookup cn = Some c \<Longrightarrow> c \<in> snd ` set lookup"
  by (induction lookup cn rule: partial_match.induct) (auto split: if_splits)

lemma find_criterion_in: "find_criterion lookup n = Some c \<Longrightarrow> c \<in> snd ` set lookup"
  by (auto simp: find_criterion_def split: option.splits dest: partial_match_in map_of_SomeD
      intro: rev_image_eqI)

lemma find_criterion_key:
  "keyed lookup \<Longrightarrow> find_criterion lookup n = Some c \<Longrightarrow> lower (name c) \<in> set (map fst lookup)"
  by (force dest: find_criterion_in simp: keyed_def)















lemma exceeds_tolerance_nan:
  "is_nan t \<Longrightarrow> exceeds_tolerance t c = Inl InvalidOperation"
  by (cases t) (auto simp: exceeds_tolerance_def dec_gt_def dec_lt_def is_nan_def)






















text \<open>
  A reported total that reads as a NaN: the tolerance test raises, and the exception is
  not a scoring failure.
\<close>

lemma nan_total_raises:
  assumes "find (\<lambda>f. map_of data f = None) required_fields = None"
    and "parse_criteria_results rt (dict_get data ''criteria_results'' PNone) rubric = Inr results"
    and "to_decimal rt (dict_get data ''total_score'' PNone) = Some t"
    and "is_nan t"
  shows "validate_and_convert rt data rubric = Inl InvalidOperation"
  using assms unfolding validate_and_convert_def
  by (simp add: parse_decimal_def exceeds_tolerance_nan)

subsection \<open>The examples, evaluated\<close>

lemma py_str_PStr: "py_str rt (PStr s) = s"
  by (simp add: py_str_def)

lemma to_decimal_PNum: "to_decimal rt (PNum d) = Some d"
  by (simp add: to_decimal_def)

lemma payload_examples:
  "json_payload examples ''good'' = Inr (payload_of 48 55 items_good)"
  "json_payload examples ''total off'' =
     Inr ((''total_score'', PNum (Fin 999)) # payload_of 48 55 items_good)"
  "json_payload examples ''max off'' = Inr (payload_of 48 100 items_good)"
  "json_payload examples ''max fixed'' =
     Inr ((''max_possible'', PNum (Fin 55)) # payload_of 48 100 items_good)"
  "json_payload examples ''echo'' =
     Inr ((''criteria_results'', PList (map2 with_max_points [PNum (Fin 30), PNone] items_good))
           # payload_of 48 55 items_good)"
  "json_payload examples ''collide'' = Inr (payload_of 5 30 [entry_of ''content'' 5])"
  by (simp_all add: examples_def example_runtime_def example_payloads_def)

lemmas example_defs = payload_examples py_str_PStr to_decimal_PNum Let_def
  parse_item_def parse_decimal_def dict_get_def
  deduction_reason_of_def find_criterion_def exceeds_tolerance_def required_fields_def
  dec_lt_def dec_gt_def dec_ne_def is_nan_def CriterionResult_new_def validate_points_range_def
  GradingResult_new_def total_max_points_def entry_of_def payload_of_def
  result_of_def graded_def items_good_def with_max_points_def entry_criterion_def

lemma example_lower:
  "lower ''content accuracy'' = ''content accuracy''"
  "lower ''Content Accuracy'' = ''content accuracy''"
  "lower ''Clarity'' = ''clarity''"
  "lower ''clarity'' = ''clarity''"
  "lower ''clarity of expression'' = ''clarity of expression''"
  "lower ''Clarity of Expression'' = ''clarity of expression''"
  "lower ''Grammar'' = ''grammar''"
  "lower ''Content'' = ''content''"
  "lower ''content'' = ''content''"
  by (simp_all add: lower_def lower_char_def)

lemma essay_lookup:
  "rubric_lookup essay_rubric =
     [(''content accuracy'', criteria essay_rubric ! 0), (''clarity'', criteria essay_rubric ! 1)]"
  by (simp add: rubric_lookup_def essay_rubric_def example_lower)





lemma parse_total_off:
  "parse examples ''total off'' essay_rubric =
     Inr (graded [result_of ''Clarity'' 25 20, result_of ''Content Accuracy'' 30 28])"
  unfolding parse_def validate_and_convert_def parse_criteria_results_def essay_lookup
  by (simp add: example_defs example_lower essay_rubric_def)



lemma parse_max_off:
  "parse examples ''max off'' essay_rubric =
     Inl (ScoringError (MaxPossibleMismatch (Fin 100) 55))"
  unfolding parse_def validate_and_convert_def parse_criteria_results_def essay_lookup
  by (simp add: example_defs example_lower essay_rubric_def)












section \<open>The validator's duplicate check and the result parser\<close>

text \<open>
  A rubric on which the validator reports nothing has criterion names that stay
  pairwise different in lower case: the result parser's lookup then holds every
  criterion. The rubric with the criteria \<open>Content\<close> and \<open>content\<close> is reported.
\<close>

lemma check_duplicates_loop_Nil:
  "check_duplicates_loop cs i seen = [] \<Longrightarrow>
   distinct (map (\<lambda>c. strip (lower (name c))) cs) \<and>
   set (map (\<lambda>c. strip (lower (name c))) cs) \<inter> dom seen = {}"
proof (induction cs arbitrary: i seen)
  case Nil
  then show ?case by simp
next
  case (Cons c cs)
  let ?k = "strip (lower (name c))"
  from Cons.prems have n: "seen ?k = None"
    and l: "check_duplicates_loop cs (i + 1) (seen(?k \<mapsto> i)) = []"
    by (auto simp: Let_def split: option.splits)
  from Cons.IH [OF l] have
    "distinct (map (\<lambda>c. strip (lower (name c))) cs)"
    "set (map (\<lambda>c. strip (lower (name c))) cs) \<inter> dom (seen(?k \<mapsto> i)) = {}"
    by auto
  then show ?case using n by auto
qed

lemma distinct_map_strip:
  "distinct (map (\<lambda>c. strip (lower (name c))) cs) \<Longrightarrow> distinct (map (\<lambda>c. lower (name c)) cs)"
  by (induction cs) auto

lemma validated_case_distinct:
  assumes "validate rubric = (True, issues)"
  shows "case_distinct rubric"
proof -
  from assms have "check_duplicates (criteria rubric) = []"
    by (auto simp: validate_def Let_def)
  then have "distinct (map (\<lambda>c. strip (lower (name c))) (criteria rubric))"
    using check_duplicates_loop_Nil by (auto simp: check_duplicates_def)
  then show ?thesis
    by (simp add: case_distinct_def distinct_map_strip)
qed

lemma validate_or_raise_case_distinct:
  "validate_or_raise rubric = Inr () \<Longrightarrow> case_distinct rubric"
  by (auto simp: validate_or_raise_def split: prod.splits if_splits
      intro: validated_case_distinct)

lemma colliding_rubric_reported:
  "check_duplicates (criteria colliding_rubric) = [DuplicateName ''content'' 1 2]"
  by (simp add: check_duplicates_def colliding_rubric_def lower_def lower_char_def
      strip_def isspace_def)

section \<open>Properties of the rubric parser\<close>

text \<open>
  The repetition never runs out of rounds: with at least as many rounds as the text has
  characters, more rounds change nothing.
\<close>

lemma star_from_fuel:
  "length (fst st) \<le> n \<Longrightarrow> star_from body n st = star_from body (length (fst st)) st"
proof (induction n arbitrary: st rule: less_induct)
  case (less n)
  show ?case
  proof (cases n)
    case 0
    with less.prems show ?thesis by simp
  next
    case n: (Suc n')
    show ?thesis
    proof (cases "length (fst st)")
      case 0
      then show ?thesis by (simp add: n)
    next
      case (Suc m)
      have m: "m \<le> n'" using Suc less.prems n by simp
      have "(if length (fst st') < length (fst st) then star_from body n' st' else []) =
          (if length (fst st') < length (fst st) then star_from body m st' else [])" for st'
      proof (cases "length (fst st') < length (fst st)")
        case True
        then have a: "length (fst st') \<le> m"
          using Suc by simp
        then have b: "length (fst st') \<le> n'"
          using m by simp
        have "star_from body n' st' = star_from body (length (fst st')) st'"
          using b n by (intro less.IH) simp_all
        moreover have "star_from body m st' = star_from body (length (fst st')) st'"
          using a m n by (intro less.IH) simp_all
        ultimately show ?thesis by simp
      next
        case False
        then show ?thesis by simp
      qed
      then show ?thesis by (simp add: n Suc)
    qed
  qed
qed

lemma clarity_groups:
  "re_match NUMBERED_PATTERN clarity_line =
     Some [(4, ''Ideas are expressed clearly''), (3, ''25''), (2, ''Clarity ''), (1, ''1'')]"
  by code_simp

lemma clarity_points: "parse_points ''25'' line_num = Inr 25"
proof -
  have "decimal_of_literal (strip ''25'') = Some 25" by code_simp
  then show ?thesis by (simp add: parse_points_def)
qed

lemma clarity_strips:
  "strip ''Clarity '' = ''Clarity''"
  "strip ''Ideas are expressed clearly'' = ''Ideas are expressed clearly''"
  "strip clarity_line = clarity_line"
  by code_simp+

lemma clarity_numbered: "try_numbered_format clarity_line line_num = Inr (Some clarity_criterion)"
  unfolding try_numbered_format_def clarity_groups
  by (simp add: match_group_def clarity_points clarity_strips RubricCriterion_new_def
      clarity_criterion_def)

lemma clarity_not_skipped: "\<not> skipped clarity_line"
  by code_simp

lemma parse_lines_loop_keeps:
  "parse_lines_loop other_formats n lines found = Inr out \<Longrightarrow> set found \<subseteq> set out"
proof (induction lines arbitrary: n found)
  case Nil
  then show ?case by simp
next
  case (Cons line rest)
  from Cons.prems show ?case
    by (auto simp: Let_def split: if_splits sum.splits option.splits dest!: Cons.IH)
qed

lemma parse_lines_loop_clarity:
  assumes "strip line = clarity_line" and "line \<in> set lines"
    and "parse_lines_loop other_formats n lines found = Inr out"
  shows "clarity_criterion \<in> set out"
  using assms(2,3)
proof (induction lines arbitrary: n found)
  case Nil
  then show ?case by simp
next
  case (Cons first rest)
  show ?case
  proof (cases "first = line")
    case True
    with Cons.prems(2) have
      "parse_lines_loop other_formats (Suc n) rest (found @ [clarity_criterion]) = Inr out"
      by (simp add: assms(1) clarity_not_skipped clarity_numbered)
    from parse_lines_loop_keeps [OF this] show ?thesis by simp
  next
    case False
    with Cons.prems(1) have "line \<in> set rest" by simp
    moreover from Cons.prems(2) obtain n' found' where
      "parse_lines_loop other_formats n' rest found' = Inr out"
      by (auto simp: Let_def split: if_splits sum.splits option.splits)
    ultimately show ?thesis by (rule Cons.IH)
  qed
qed

lemma parse_rubric_Inr:
  assumes "parse_rubric other_formats content fallback = Inr rubric"
  shows "parse_lines other_formats (split_lines (strip content)) = Inr (criteria rubric)"
  using assms
  by (auto simp: parse_rubric_def Let_def Rubric_new_Inr_iff split: if_splits sum.splits)

lemma clarity_alone:
  "parse_rubric other_formats clarity_line ''Grading Rubric'' =
     Inr \<lparr>title = ''Grading Rubric'', Rubric.description = '''',
          criteria = [clarity_criterion]\<rparr>"
proof -
  have s: "strip clarity_line \<noteq> []" by code_simp
  have l: "split_lines clarity_line = [clarity_line]" by code_simp
  have t: "extract_title [clarity_line] = None" by code_simp
  have p: "parse_lines other_formats [clarity_line] = Inr [clarity_criterion]"
    by (simp add: parse_lines_def clarity_strips clarity_not_skipped clarity_numbered)
  show ?thesis
    using s by (simp add: parse_rubric_def clarity_strips l t p Rubric_new_def
        validate_no_duplicate_names_def del: extract_title.simps)
qed

text \<open>
  C10. The numbered format reads the line
  ``1. Clarity (25 points): Ideas are expressed clearly'' as the criterion named
  \<open>Clarity\<close> with \<open>max_points\<close> exactly 25 and the description
  ``Ideas are expressed clearly''. Whenever the parser returns the criteria of lines, or
  the rubric of a content, among which this line stands (surrounding whitespace apart),
  the criterion is among them; and the content that is this line alone parses to the
  rubric with this one criterion.
\<close>

theorem clarity_line_parses:
  "try_numbered_format clarity_line line_num = Inr (Some clarity_criterion) \<and>
   (strip line = clarity_line \<and> line \<in> set lines \<and>
    parse_lines other_formats lines = Inr found \<longrightarrow> clarity_criterion \<in> set found) \<and>
   (strip line = clarity_line \<and> line \<in> set (split_lines (strip content)) \<and>
    parse_rubric other_formats content fallback = Inr rubric \<longrightarrow>
      clarity_criterion \<in> set (criteria rubric)) \<and>
   parse_rubric other_formats clarity_line ''Grading Rubric'' =
     Inr \<lparr>title = ''Grading Rubric'', Rubric.description = '''',
          criteria = [clarity_criterion]\<rparr>"
proof (intro conjI impI)
  show "try_numbered_format clarity_line line_num = Inr (Some clarity_criterion)"
    by (rule clarity_numbered)
next
  assume "strip line = clarity_line \<and> line \<in> set lines \<and>
    parse_lines other_formats lines = Inr found"
  then show "clarity_criterion \<in> set found"
    unfolding parse_lines_def by (blast intro: parse_lines_loop_clarity)
next
  assume a: "strip line = clarity_line \<and> line \<in> set (split_lines (strip content)) \<and>
    parse_rubric other_formats content fallback = Inr rubric"
  then have "parse_lines other_formats (split_lines (strip content)) = Inr (criteria rubric)"
    using parse_rubric_Inr by blast
  with a show "clarity_criterion \<in> set (criteria rubric)"
    unfolding parse_lines_def by (blast intro: parse_lines_loop_clarity)
next
  show "parse_rubric other_formats clarity_line ''Grading Rubric'' =
     Inr \<lparr>title = ''Grading Rubric'', Rubric.description = '''',
          criteria = [clarity_criterion]\<rparr>"
    by (rule clarity_alone)
qed

lemma essay_text_lines:
  "split_lines (strip essay_text) = [''Essay Rubric'', '''', ''  '' @ clarity_line]"
  by code_simp

lemma essay_text_parsed:
  "parse_rubric no_other_format essay_text ''Grading Rubric'' =
     Inr \<lparr>title = ''Essay Rubric'', Rubric.description = '''',
          criteria = [clarity_criterion]\<rparr>"
  by code_simp

theorem clarity_line_parses_witness:
  "strip (''  '' @ clarity_line) = clarity_line \<and>
   ''  '' @ clarity_line \<in> set (split_lines (strip essay_text)) \<and>
   parse_rubric no_other_format essay_text ''Grading Rubric'' =
     Inr \<lparr>title = ''Essay Rubric'', Rubric.description = '''',
          criteria = [clarity_criterion]\<rparr> \<and>
   parse_lines no_other_format (split_lines (strip essay_text)) = Inr [clarity_criterion] \<and>
   clarity_criterion \<in> set [clarity_criterion]"
proof -
  have a: "strip (''  '' @ clarity_line) = clarity_line" by code_simp
  have b: "''  '' @ clarity_line \<in> set (split_lines (strip essay_text))"
    by (simp add: essay_text_lines)
  have c: "parse_lines no_other_format (split_lines (strip essay_text)) = Inr [clarity_criterion]"
    using parse_rubric_Inr [OF essay_text_parsed] by simp
  from clarity_line_parses [of 1 "''  '' @ clarity_line" "split_lines (strip essay_text)"
      no_other_format "[clarity_criterion]" essay_text "''Grading Rubric''"
      "\<lparr>title = ''Essay Rubric'', Rubric.description = '''', criteria = [clarity_criterion]\<rparr>"]
  show ?thesis
    using a b c essay_text_parsed by simp
qed

end
